theory Spec2Isabelle
  imports Main "HOL-Library.Word"
begin

section \<open>Data model of xlsx/sheets.go\<close>

text \<open>
  A Go run-time panic ends the call that raised it. Every function of the source that can
  panic returns an \<open>outcome\<close>: \<open>Panic\<close> with the kind of run-time error, or \<open>Done\<close> with
  the value the Go function returns (for a method with a pointer receiver: the updated
  receiver).
\<close>

datatype panic =
    IndexOutOfRange   \<comment> \<open>index out of range on a slice or a string\<close>
  | TypeAssertion     \<comment> \<open>single-value type assertion \<open>x.(T)\<close> on another dynamic type\<close>
  | MakeSliceLen      \<comment> \<open>\<open>make([]T, n)\<close> with negative \<open>n\<close>\<close>
  | NilFunc           \<comment> \<open>call of a nil function value\<close>

datatype 'a outcome = Panic panic | Done 'a

text \<open>
  Go values of type \<open>error\<close>. \<open>nil\<close> is \<open>None\<close> of \<open>error option\<close>.
  \<open>EOF\<close> is \<open>io.EOF\<close>, \<open>ErrInvalidScanType\<close> is \<open>grate.ErrInvalidScanType\<close>.
\<close>

datatype error = EOF | ErrInvalidScanType | errNotLoaded | Failure string

text \<open>
  The dynamic content of an \<open>interface{}\<close>: its dynamic type and the value. A
  \<open>float64\<close> is carried as its 64 bits and a \<open>time.Time\<close> as an instant; neither is
  computed with here. \<open>ROther\<close> stands for a value of any other dynamic type.
\<close>

type_synonym float64 = "64 word"

datatype raw =
    RNil
  | RBool bool
  | RInt int
  | RFloat64 float64
  | RString string
  | RTime int
  | ROther nat

text \<open>
  Modelled from the spec: \<open>commonxl.Value\<close>, \<open>commonxl.NewValue\<close> and the methods
  \<open>Raw\<close> and \<open>IsEmpty\<close> are declared outside xlsx/sheets.go. Section 3: a Cell Value is a tagged
  value plus an associated display string; the zero \<open>Value\<close> is the empty cell.
  Section 4.8: an empty cell reads as the empty string, every other cell as its display
  string.
\<close>

datatype Value = Value (Raw: raw) (display: string)

definition NewValue :: "raw \<Rightarrow> string \<Rightarrow> Value" where
  "NewValue val s = Value val s"

definition zeroValue :: Value where
  "zeroValue = Value RNil []"

definition Value_IsEmpty :: "Value \<Rightarrow> bool" where
  "Value_IsEmpty v = (Raw v = RNil)"

definition Sprint :: "Value \<Rightarrow> string" where
  "Sprint v = display v"

text \<open>
  \<open>type row struct { cols []commonxl.Value }\<close>: a row is the list of its columns. Every
  \<open>*row\<close> of \<open>Sheet.rows\<close> is allocated by \<open>placeValue\<close> at its \<open>append\<close>, so no two
  entries share a row and the grid is a list of lists.

  \<open>type Sheet struct\<close>: the fields the functions of this file read or write. \<open>d\<close>, the
  document, is read only: what \<open>parseSheet\<close> reads from it is the record \<open>env\<close> below.
  Go's \<open>int\<close> is modelled by \<open>int\<close>: indexes are assumed to stay below \<open>2^63\<close>.
\<close>

type_synonym row = "Value list"

record Sheet =
  err :: "error option"
  rows :: "row list"
  minRow :: int
  maxRow :: int
  minCol :: int
  maxCol :: int
  iterRow :: int
  empty :: bool

subsection \<open>placeValue\<close>

text \<open>
  \<open>for len(s.rows) <= rowIndex { emptyRow := make([]commonxl.Value, s.maxCol+1);
  s.rows = append(s.rows, &row{cols: emptyRow}) }\<close>
\<close>

function growRows :: "row list \<Rightarrow> int \<Rightarrow> int \<Rightarrow> row list" where
  "growRows rs mc rowIndex =
     (if int (length rs) \<le> rowIndex
      then growRows (rs @ [replicate (nat (mc + 1)) zeroValue]) mc rowIndex
      else rs)"
  by pat_completeness auto
termination
  by (relation "measure (\<lambda>(rs, mc, rowIndex). nat (rowIndex + 1 - int (length rs)))") auto

declare growRows.simps [simp del]

text \<open>
  \<open>func (s *Sheet) placeValue(rowIndex, colIndex int, val interface{}, str string)\<close>.
  The guard returns when the position is beyond the declared maximum. \<open>make\<close> panics on a
  negative length, \<open>s.rows[rowIndex]\<close> on a negative row index, \<open>cols[colIndex]\<close> on a
  column index that is negative or not below the length of the row.
\<close>

definition placeValue :: "Sheet \<Rightarrow> int \<Rightarrow> int \<Rightarrow> raw \<Rightarrow> string \<Rightarrow> Sheet outcome" where
  "placeValue s rowIndex colIndex val str =
     (if colIndex > maxCol s \<or> rowIndex > maxRow s then Done s
      else if int (length (rows s)) \<le> rowIndex \<and> maxCol s + 1 < 0 then Panic MakeSliceLen
      else
        let rs = growRows (rows s) (maxCol s) rowIndex in
        if rowIndex < 0 then Panic IndexOutOfRange
        else if colIndex < 0 \<or> int (length (rs ! nat rowIndex)) \<le> colIndex
          then Panic IndexOutOfRange
        else Done (s\<lparr>rows := rs[nat rowIndex := (rs ! nat rowIndex)[nat colIndex := NewValue val str]],
                     empty := False\<rparr>))"

subsection \<open>The document and the token stream\<close>

text \<open>
  A token of \<open>encoding/xml\<close> as \<open>RawToken\<close> returns it: character data, a start element
  with its local name and attributes (local name, value), an end element with its local
  name, or any other token (comment, processing instruction, directive).
\<close>

datatype token =
    CharData string
  | StartElement string "(string \<times> string) list"
  | EndElement string
  | OtherToken

text \<open>
  What \<open>s.d.openXML(name)\<close> gives: an error, or a decoder. A decoder is the tokens
  \<open>RawToken\<close> returns one after the other and the error it returns after the last of
  them (\<open>EOF\<close> at the end of the part, another error when reading fails).
\<close>

datatype xmlpart = OpenError error | Opened "token list" error

text \<open>
  Modelled from the spec: \<open>getAttrs\<close> is declared outside xlsx/sheets.go. Section 6 lists the
  attributes read by local name; an attribute that is absent reads as the empty string
  (Section 4.7: the type defaults when it is blank). The result has one entry per key.
\<close>

definition getAttr :: "(string \<times> string) list \<Rightarrow> string \<Rightarrow> string" where
  "getAttr attrs k = foldl (\<lambda>res (n, v). if n = k then v else res) [] attrs"

definition getAttrs :: "(string \<times> string) list \<Rightarrow> string list \<Rightarrow> string list" where
  "getAttrs attrs keys = map (getAttr attrs) keys"

text \<open>
  The cell types that \<open>parseSheet\<close> switches on. The constants are declared outside xlsx/sheets.go;
  they are distinct (they are the cases of one switch). \<open>UnknownCellType\<close> is every
  other string.
\<close>

datatype CellType =
    BlankCellType
  | BooleanCellType
  | DateCellType
  | ErrorCellType
  | NumberCellType
  | SharedStringCellType
  | FormulaStringCellType
  | InlineStringCellType
  | UnknownCellType

text \<open>\<open>commonxl.FmtFunc\<close>, applied to \<open>&s.d.fmt\<close>: from the number to \<open>(str, val)\<close>.\<close>

type_synonym FmtFunc = "float64 \<Rightarrow> string \<times> raw"

text \<open>
  What \<open>parseSheet\<close> uses and xlsx/sheets.go does not declare, taken as parameters:
  \<^item> \<open>refToIndexes\<close>, the address codec: from a reference to (column, row);
  \<^item> \<open>toCellType\<close>: the conversion \<open>CellType(ax[0])\<close>, read against the constants;
  \<^item> \<open>strings\<close> and \<open>xfs\<close>: the shared strings and the number formats of the document;
  \<^item> \<open>ParseFloat\<close>: \<open>strconv.ParseFloat(str, 64)\<close>, \<open>None\<close> when it returns an error;
  \<^item> the four merge markers.
\<close>

record env =
  refToIndexes :: "string \<Rightarrow> int \<times> int"
  toCellType :: "string \<Rightarrow> CellType"
  strings :: "string list"
  xfs :: "FmtFunc list"
  ParseFloat :: "string \<Rightarrow> float64 option"
  endRowMerged :: raw
  continueRowMerged :: raw
  endColumnMerged :: raw
  continueColumnMerged :: raw

subsection \<open>Library functions of Go\<close>

text \<open>\<open>strings.Split(s, sep)\<close> for a separator of one byte: never the empty list.\<close>

fun Split :: "string \<Rightarrow> char \<Rightarrow> string list" where
  "Split [] sep = [[]]"
| "Split (c # cs) sep =
     (if c = sep then [] # Split cs sep
      else (case Split cs sep of [] \<Rightarrow> [[c]] | w # ws \<Rightarrow> (c # w) # ws))"

text \<open>
  \<open>strconv.ParseInt(s, 10, 64)\<close> with its error dropped, as in \<open>si, _ := ...\<close>: 0 on a
  syntax error, the nearest bound on a range error.
\<close>

datatype uintResult = USyntax | URange | UValue int

definition digitVal :: "char \<Rightarrow> int option" where
  "digitVal c = (let n = (of_char c :: int) in if 48 \<le> n \<and> n \<le> 57 then Some (n - 48) else None)"

fun parseDigits :: "string \<Rightarrow> int \<Rightarrow> uintResult" where
  "parseDigits [] n = UValue n"
| "parseDigits (c # cs) n =
     (case digitVal c of
        None \<Rightarrow> USyntax
      | Some d \<Rightarrow> if n * 10 + d \<ge> 2 ^ 64 then URange else parseDigits cs (n * 10 + d))"

definition ParseUint :: "string \<Rightarrow> uintResult" where
  "ParseUint s = (if s = [] then USyntax else parseDigits s 0)"

definition ParseInt :: "string \<Rightarrow> int" where
  "ParseInt s =
     (if s = [] then 0
      else
        let neg = (hd s = CHR ''-'');
            s1 = (if hd s = CHR ''+'' \<or> hd s = CHR ''-'' then tl s else s)
        in case ParseUint s1 of
             USyntax \<Rightarrow> 0
           | URange \<Rightarrow> if neg then - (2 ^ 63) else 2 ^ 63 - 1
           | UValue un \<Rightarrow>
               if \<not> neg \<and> un \<ge> 2 ^ 63 then 2 ^ 63 - 1
               else if neg \<and> un > 2 ^ 63 then - (2 ^ 63)
               else if neg then - un else un)"

subsection \<open>parseSheet\<close>

text \<open>
  The first loop of \<open>parseSheet\<close>: the relationships part, when it opens, gives the map
  from the id of an external hyperlink relationship to its target. The loop ends at the
  first error of \<open>RawToken\<close>, whichever it is.
\<close>

definition hyperlinkType :: string where
  "hyperlinkType = ''http://schemas.openxmlformats.org/officeDocument/2006/relationships/hyperlink''"

fun relsStep :: "(string \<rightharpoonup> string) \<Rightarrow> token \<Rightarrow> (string \<rightharpoonup> string)" where
  "relsStep linkmap (StartElement name attrs) =
     (if name = ''Relationship'' then
        let ax = getAttrs attrs [''Id'', ''Type'', ''Target'', ''TargetMode''] in
        if ax ! 3 = ''External'' \<and> ax ! 1 = hyperlinkType
        then linkmap(ax ! 0 \<mapsto> ax ! 2) else linkmap
      else linkmap)"
| "relsStep linkmap _ = linkmap"

definition loadLinkmap :: "xmlpart \<Rightarrow> (string \<rightharpoonup> string)" where
  "loadLinkmap rels =
     (case rels of
        OpenError e \<Rightarrow> Map.empty
      | Opened toks e \<Rightarrow> foldl relsStep Map.empty toks)"

text \<open>The local variables of the decode loop.\<close>

record locals =
  currentCellType :: CellType
  currentCell :: string
  numFormat :: "FmtFunc option"

definition initLocals :: locals where
  "initLocals = \<lparr>currentCellType = BlankCellType, currentCell = [], numFormat = None\<rparr>"

text \<open>\<open>for x := lo; x <= hi; x++ { body }\<close> over the values \<open>xs\<close>, a panic ending it.\<close>

primrec forEach :: "int list \<Rightarrow> (int \<Rightarrow> Sheet \<Rightarrow> Sheet outcome) \<Rightarrow> Sheet \<Rightarrow> Sheet outcome" where
  "forEach [] body s = Done s"
| "forEach (x # xs) body s =
     (case body x s of Panic p \<Rightarrow> Panic p | Done s1 \<Rightarrow> forEach xs body s1)"

text \<open>The body of the two loops of \<open>case "mergeCell"\<close>, at row \<open>r\<close> and column \<open>c\<close>.\<close>

definition mergeAt :: "env \<Rightarrow> int \<Rightarrow> int \<Rightarrow> int \<Rightarrow> int \<Rightarrow> int \<Rightarrow> int \<Rightarrow> Sheet \<Rightarrow> Sheet outcome" where
  "mergeAt E startRow startCol endRow endCol r c s =
     (if r = startRow \<and> c = startCol then Done s
      else if c = startCol then
        (if r = endRow then placeValue s r c (endRowMerged E) []
         else placeValue s r c (continueRowMerged E) [])
      else if c = endCol then placeValue s r c (endColumnMerged E) []
      else placeValue s r c (continueColumnMerged E) [])"

definition mergeCell :: "env \<Rightarrow> (string \<times> string) list \<Rightarrow> Sheet \<Rightarrow> Sheet outcome" where
  "mergeCell E attrs s =
     (let ax = getAttrs attrs [''ref''];
          dims = Split (ax ! 0) CHR '':'';
          (startCol, startRow) = refToIndexes E (dims ! 0);
          (endCol, endRow) = (if length dims > 1 then refToIndexes E (dims ! 1)
                              else (startCol, startRow))
      in forEach [startRow..endRow]
           (\<lambda>r. forEach [startCol..endCol] (mergeAt E startRow startCol endRow endCol r)) s)"

text \<open>\<open>case "hyperlink"\<close>. \<open>s.rows[row]\<close> and \<open>cols[col]\<close> are read once the lengths exceed
  the indexes, also when an index is negative.\<close>

definition hyperlink :: "env \<Rightarrow> (string \<rightharpoonup> string) \<Rightarrow> (string \<times> string) list \<Rightarrow> Sheet \<Rightarrow> Sheet outcome" where
  "hyperlink E linkmap attrs s =
     (let ax = getAttrs attrs [''ref'', ''id''];
          (col, row) = refToIndexes E (ax ! 0);
          link = (case linkmap (ax ! 1) of None \<Rightarrow> [] | Some t \<Rightarrow> t)
      in if int (length (rows s)) > row then
           if row < 0 then Panic IndexOutOfRange
           else if int (length (rows s ! nat row)) > col then
             if col < 0 then Panic IndexOutOfRange
             else (case Raw (rows s ! nat row ! nat col) of
                     RString sstr \<Rightarrow>
                       placeValue s row col (RString (sstr @ '' <'' @ link @ ''>''))
                         (sstr @ '' <'' @ link @ ''>'')
                   | _ \<Rightarrow> placeValue s row col (RString link) link)
           else placeValue s row col (RString link) link
         else placeValue s row col (RString link) link)"

text \<open>\<open>case "dimension"\<close>.\<close>

definition dimension :: "env \<Rightarrow> (string \<times> string) list \<Rightarrow> Sheet \<Rightarrow> Sheet" where
  "dimension E attrs s =
     (let ax = getAttrs attrs [''ref''] in
      if ax ! 0 = ''A1'' then
        s\<lparr>minCol := 0, minRow := 0, maxCol := 1, maxRow := 1, empty := True\<rparr>
      else
        let dims = Split (ax ! 0) CHR '':'' in
        if length dims = 1 then
          (let (c1, r1) = refToIndexes E (dims ! 0)
           in s\<lparr>minCol := 0, minRow := 0, maxCol := c1, maxRow := r1\<rparr>)
        else
          (let (c0, r0) = refToIndexes E (dims ! 0);
               (c1, r1) = refToIndexes E (dims ! 1)
           in s\<lparr>minCol := c0, minRow := r0, maxCol := c1, maxRow := r1\<rparr>))"

text \<open>\<open>case "c"\<close>: the type, the reference and the number format of the cell.\<close>

definition cellStart :: "env \<Rightarrow> (string \<times> string) list \<Rightarrow> locals \<Rightarrow> locals outcome" where
  "cellStart E attrs l =
     (let ax = getAttrs attrs [''t'', ''r'', ''s''];
          ct = toCellType E (ax ! 0);
          ct1 = (if ct = BlankCellType then NumberCellType else ct);
          sid = ParseInt (ax ! 2)
      in if int (length (xfs E)) > sid then
           (if sid < 0 then Panic IndexOutOfRange
            else Done \<lparr>currentCellType = ct1, currentCell = ax ! 1,
                       numFormat = Some (xfs E ! nat sid)\<rparr>)
         else
           (if xfs E = [] then Panic IndexOutOfRange
            else Done \<lparr>currentCellType = ct1, currentCell = ax ! 1,
                       numFormat = Some (xfs E ! 0)\<rparr>))"

text \<open>\<open>case xml.CharData\<close>: the value of the current cell. Logging is not modelled.\<close>

definition charData :: "env \<Rightarrow> string \<Rightarrow> locals \<Rightarrow> Sheet \<Rightarrow> Sheet outcome" where
  "charData E v l s =
     (if currentCell l = [] then Done s
      else
        let (c, r) = refToIndexes E (currentCell l) in
        if c \<ge> 0 \<and> r \<ge> 0 then
          (case currentCellType l of
             BooleanCellType \<Rightarrow>
               (if v = [] then Panic IndexOutOfRange
                else placeValue s r c (RBool (hd v = CHR ''1'')) v)
           | DateCellType \<Rightarrow> placeValue s r c (RString v) v
           | NumberCellType \<Rightarrow>
               (case ParseFloat E v of
                  None \<Rightarrow> placeValue s r c (RString v) v
                | Some fval \<Rightarrow>
                    (case numFormat l of
                       None \<Rightarrow> Panic NilFunc
                     | Some f \<Rightarrow> placeValue s r c (snd (f fval)) (fst (f fval))))
           | SharedStringCellType \<Rightarrow>
               (let si = ParseInt v in
                if si < 0 \<or> int (length (strings E)) \<le> si then Panic IndexOutOfRange
                else placeValue s r c (RString (strings E ! nat si)) (strings E ! nat si))
           | BlankCellType \<Rightarrow> Done s
           | ErrorCellType \<Rightarrow> placeValue s r c (RString v) v
           | FormulaStringCellType \<Rightarrow> placeValue s r c (RString v) v
           | InlineStringCellType \<Rightarrow> placeValue s r c (RString v) v
           | UnknownCellType \<Rightarrow> placeValue s r c (RString v) v)
        else Done s)"

text \<open>One turn of the decode loop on the token \<open>tok\<close>.\<close>

fun step :: "env \<Rightarrow> (string \<rightharpoonup> string) \<Rightarrow> token \<Rightarrow> Sheet \<times> locals \<Rightarrow> (Sheet \<times> locals) outcome" where
  "step E linkmap (CharData v) (s, l) =
     (case charData E v l s of Panic p \<Rightarrow> Panic p | Done s1 \<Rightarrow> Done (s1, l))"
| "step E linkmap (StartElement name attrs) (s, l) =
     (if name = ''dimension'' then Done (dimension E attrs s, l)
      else if name = ''c'' then
        (case cellStart E attrs l of Panic p \<Rightarrow> Panic p | Done l1 \<Rightarrow> Done (s, l1))
      else if name = ''mergeCell'' then
        (case mergeCell E attrs s of Panic p \<Rightarrow> Panic p | Done s1 \<Rightarrow> Done (s1, l))
      else if name = ''hyperlink'' then
        (case hyperlink E linkmap attrs s of Panic p \<Rightarrow> Panic p | Done s1 \<Rightarrow> Done (s1, l))
      else Done (s, l))"
| "step E linkmap (EndElement name) (s, l) =
     (if name = ''c'' then Done (s, l\<lparr>currentCell := []\<rparr>) else Done (s, l))"
| "step E linkmap OtherToken (s, l) = Done (s, l)"

text \<open>\<open>for ; err == nil; tok, err = dec.RawToken() { ... }\<close> over the tokens of the part.\<close>

fun decode :: "env \<Rightarrow> (string \<rightharpoonup> string) \<Rightarrow> token list \<Rightarrow> Sheet \<times> locals \<Rightarrow> (Sheet \<times> locals) outcome" where
  "decode E linkmap [] st = Done st"
| "decode E linkmap (tok # toks) st =
     (case step E linkmap tok st of
        Panic p \<Rightarrow> Panic p
      | Done st1 \<Rightarrow> decode E linkmap toks st1)"

text \<open>
  \<open>func (s *Sheet) parseSheet() error\<close>: \<open>rels\<close> is what \<open>openXML(relsname)\<close> gives,
  \<open>part\<close> what \<open>openXML(s.docname)\<close> gives. The result is the sheet after the call and the
  error returned.
\<close>

definition parseSheet :: "env \<Rightarrow> xmlpart \<Rightarrow> xmlpart \<Rightarrow> Sheet \<Rightarrow> (Sheet \<times> error option) outcome" where
  "parseSheet E rels part s =
     (case part of
        OpenError e \<Rightarrow> Done (s, Some e)
      | Opened toks e \<Rightarrow>
          (case decode E (loadLinkmap rels) toks (s, initLocals) of
             Panic p \<Rightarrow> Panic p
           | Done (s1, l) \<Rightarrow> Done (s1, if e = EOF then None else Some e)))"

subsection \<open>The row cursor\<close>

definition Next :: "Sheet \<Rightarrow> Sheet \<times> bool" where
  "Next s = (s\<lparr>iterRow := iterRow s + 1\<rparr>, iterRow s + 1 < int (length (rows s)))"

definition Strings :: "Sheet \<Rightarrow> string list outcome" where
  "Strings s =
     (if iterRow s < 0 \<or> int (length (rows s)) \<le> iterRow s then Panic IndexOutOfRange
      else Done (map (\<lambda>col. if Value_IsEmpty col then [] else Sprint col)
                   (rows s ! nat (iterRow s))))"






definition Err :: "Sheet \<Rightarrow> error option" where
  "Err s = err s"

text \<open>
  Modelled from the spec: the caller of \<open>parseSheet\<close> is declared outside xlsx/sheets.go. Section 7:
  a stream failure is propagated as the sheet's terminal error, and \<open>lastError()\<close> reports
  the cause. The caller stores what \<open>parseSheet\<close> returns in \<open>s.err\<close>.
\<close>

definition loadSheet :: "env \<Rightarrow> xmlpart \<Rightarrow> xmlpart \<Rightarrow> Sheet \<Rightarrow> Sheet outcome" where
  "loadSheet E rels part s =
     (case parseSheet E rels part s of
        Panic p \<Rightarrow> Panic p
      | Done (s1, e) \<Rightarrow> Done (s1\<lparr>err := e\<rparr>))"

section \<open>Notions used to state the properties\<close>







fun isDimension :: "token \<Rightarrow> bool" where
  "isDimension (StartElement name attrs) = (name = ''dimension'')"
| "isDimension (CharData v) = False"
| "isDimension (EndElement name) = False"
| "isDimension OtherToken = False"



text \<open>The sheet after \<open>n\<close> calls of \<open>Next\<close>.\<close>

primrec nexts :: "nat \<Rightarrow> Sheet \<Rightarrow> Sheet" where
  "nexts 0 s = s"
| "nexts (Suc n) s = fst (Next (nexts n s))"

text \<open>A call returns a non-nil error.\<close>

definition returnsError :: "('a \<times> error option) outcome \<Rightarrow> bool" where
  "returnsError r = (case r of Panic p \<Rightarrow> False | Done (x, e) \<Rightarrow> e \<noteq> None)"

section \<open>A concrete document\<close>

text \<open>
  Modelled from the spec: \<open>refToIndexes\<close> is declared outside xlsx/sheets.go. Section 4.1: a
  reference is one or more uppercase letters followed by one or more digits; the column
  is the letters in base 26 with \<open>A\<close> = 0 (\<open>AA\<close> = 26), the row is the digits minus one;
  malformed input yields (-1, -1).
\<close>

definition isUpper :: "char \<Rightarrow> bool" where
  "isUpper c = (let n = (of_char c :: int) in 65 \<le> n \<and> n \<le> 90)"

definition isDigit :: "char \<Rightarrow> bool" where
  "isDigit c = (let n = (of_char c :: int) in 48 \<le> n \<and> n \<le> 57)"

definition refToIndexes_spec :: "string \<Rightarrow> int \<times> int" where
  "refToIndexes_spec ref =
     (let letters = takeWhile isUpper ref;
          digits = dropWhile isUpper ref
      in if letters = [] \<or> digits = [] \<or> \<not> list_all isDigit digits then (- 1, - 1)
         else (foldl (\<lambda>n ch. n * 26 + (of_char ch - 64)) 0 letters - 1,
               foldl (\<lambda>n ch. n * 10 + (of_char ch - 48)) 0 digits - 1))"

text \<open>The values of the type attribute of a cell in the worksheet markup.\<close>

definition toCellType_markup :: "string \<Rightarrow> CellType" where
  "toCellType_markup t =
     (if t = [] then BlankCellType
      else if t = ''b'' then BooleanCellType
      else if t = ''d'' then DateCellType
      else if t = ''e'' then ErrorCellType
      else if t = ''n'' then NumberCellType
      else if t = ''s'' then SharedStringCellType
      else if t = ''str'' then FormulaStringCellType
      else if t = ''inlineStr'' then InlineStringCellType
      else UnknownCellType)"

text \<open>
  A document with two shared strings, one number format, no text that parses as a number,
  and four different markers.
\<close>

definition exampleEnv :: env where
  "exampleEnv =
     \<lparr>refToIndexes = refToIndexes_spec,
      toCellType = toCellType_markup,
      strings = [''alpha'', ''beta''],
      xfs = [\<lambda>f. (''number'', RFloat64 f)],
      ParseFloat = (\<lambda>x. None),
      endRowMerged = ROther 0,
      continueRowMerged = ROther 1,
      endColumnMerged = ROther 2,
      continueColumnMerged = ROther 3\<rparr>"

text \<open>A sheet before it is parsed: no rows, the cursor before the first row.\<close>

definition newSheet :: Sheet where
  "newSheet =
     \<lparr>err = Some errNotLoaded, rows = [], minRow = 0, maxRow = 0, minCol = 0, maxCol = 0,
      iterRow = - 1, empty = False\<rparr>"

text \<open>No relationships part.\<close>

definition noRels :: xmlpart where
  "noRels = OpenError (Failure ''file does not exist'')"

text \<open>
  A worksheet part whose dimension is \<open>B2:D5\<close> and whose cell \<open>B2\<close> holds the text \<open>x\<close>,
  and the sheet that \<open>parseSheet\<close> makes of it.
\<close>

definition partB2D5_head :: "token list" where
  "partB2D5_head = [OtherToken, StartElement ''worksheet'' [],
                    StartElement ''dimension'' [(''ref'', ''B2:D5'')]]"

definition partB2D5_cells :: "token list" where
  "partB2D5_cells = [StartElement ''c'' [(''r'', ''B2''), (''t'', ''str'')], StartElement ''v'' [],
                     CharData ''x'', EndElement ''v'', EndElement ''c'', EndElement ''worksheet'']"

definition sheetB2D5 :: Sheet where
  "sheetB2D5 =
     \<lparr>err = Some errNotLoaded,
      rows = [[zeroValue, zeroValue, zeroValue, zeroValue],
              [zeroValue, Value (RString ''x'') ''x'', zeroValue, zeroValue]],
      minRow = 1, maxRow = 4, minCol = 1, maxCol = 3, iterRow = - 1, empty = False\<rparr>"






definition sheetA1_empty :: Sheet where
  "sheetA1_empty =
     \<lparr>err = Some errNotLoaded, rows = [], minRow = 0, maxRow = 1, minCol = 0, maxCol = 1,
      iterRow = - 1, empty = True\<rparr>"



text \<open>
  A relationships part with one external hyperlink, and a sheet whose cell \<open>A1\<close> holds the
  text \<open>Example\<close> and whose cell \<open>B1\<close> is empty.
\<close>

definition relsExample :: xmlpart where
  "relsExample =
     Opened [StartElement ''Relationships'' [],
             StartElement ''Relationship''
               [(''Id'', ''rId1''), (''Type'', hyperlinkType), (''Target'', ''http://x''),
                (''TargetMode'', ''External'')],
             EndElement ''Relationship'', EndElement ''Relationships''] EOF"


text \<open>
  Parts of dimension \<open>A1:B2\<close> whose cell \<open>A1\<close> is of the shared-string type, with the
  text \<open>v\<close> as its index, and the sheet after the cell when the index resolves to \<open>str\<close>.
\<close>

definition partShared :: "string \<Rightarrow> token list" where
  "partShared v =
     [StartElement ''worksheet'' [], StartElement ''dimension'' [(''ref'', ''A1:B2'')],
      StartElement ''c'' [(''r'', ''A1''), (''t'', ''s'')], StartElement ''v'' [],
      CharData v, EndElement ''v'', EndElement ''c'', EndElement ''worksheet'']"

definition sheetShared :: "string \<Rightarrow> Sheet" where
  "sheetShared str =
     \<lparr>err = Some errNotLoaded, rows = [[Value (RString str) str, zeroValue]],
      minRow = 0, maxRow = 1, minCol = 0, maxCol = 1, iterRow = - 1, empty = False\<rparr>"

definition localsShared :: locals where
  "localsShared = \<lparr>currentCellType = SharedStringCellType, currentCell = ''A1'',
                    numFormat = None\<rparr>"

section \<open>Properties\<close>

subsection \<open>Growing the grid\<close>


subsection \<open>placeValue\<close>

lemma placeValue_fields:
  "placeValue s r c v t = Done s' \<Longrightarrow>
     maxCol s' = maxCol s \<and> maxRow s' = maxRow s \<and> minCol s' = minCol s \<and> minRow s' = minRow s \<and>
     iterRow s' = iterRow s \<and> err s' = err s"
  by (auto simp: placeValue_def Let_def split: if_splits)







text \<open>
  Claim C3. A call of \<open>placeValue\<close> with a row index above \<open>maxRow\<close> or a column index
  above \<open>maxCol\<close> returns the sheet as it was: the number of rows, the contents of every
  row and the emptiness flag are unchanged.
\<close>

theorem placeValue_out_of_bounds:
  "rowIndex > maxRow s \<or> colIndex > maxCol s \<Longrightarrow>
     placeValue s rowIndex colIndex val str = Done s"
  by (auto simp: placeValue_def)

theorem placeValue_out_of_bounds_witness:
  "(7 > maxRow newSheet \<or> 0 > maxCol newSheet) \<and>
   placeValue newSheet 7 0 (RString ''x'') ''x'' = Done newSheet"
proof -
  have h: "7 > maxRow newSheet \<or> 0 > maxCol newSheet" by (simp add: newSheet_def)
  show ?thesis using h placeValue_out_of_bounds [OF h] by simp
qed

subsection \<open>Invariants of the decode loop\<close>

lemma forEach_inv:
  assumes "\<And>x s s'. P s \<Longrightarrow> body x s = Done s' \<Longrightarrow> P s'"
    and "P s" and "forEach xs body s = Done s'"
  shows "P s'"
  using assms(2,3)
proof (induction xs arbitrary: s)
  case Nil
  then show ?case by simp
next
  case (Cons x xs)
  then show ?case
    by (auto split: outcome.splits intro: assms(1))
qed

lemma mergeAt_inv:
  assumes pv: "\<And>s r c v t s'. P s \<Longrightarrow> placeValue s r c v t = Done s' \<Longrightarrow> P s'"
    and "P s" and "mergeAt E sr sc er ec r c s = Done s'"
  shows "P s'"
  using assms(2,3) by (auto simp: mergeAt_def split: if_splits intro: pv)

lemma mergeCell_inv:
  assumes pv: "\<And>s r c v t s'. P s \<Longrightarrow> placeValue s r c v t = Done s' \<Longrightarrow> P s'"
    and "P s" and "mergeCell E attrs s = Done s'"
  shows "P s'"
proof -
  obtain sc sr ec er where
    m: "forEach [sr..er] (\<lambda>r. forEach [sc..ec] (mergeAt E sr sc er ec r)) s = Done s'"
    using assms(3) by (auto simp: mergeCell_def Let_def split: prod.splits)
  have inner: "P t \<Longrightarrow> forEach [sc..ec] (mergeAt E sr sc er ec r) t = Done t' \<Longrightarrow> P t'" for r t t'
    by (rule forEach_inv[where P=P and body="mergeAt E sr sc er ec r"]) (auto intro: mergeAt_inv pv)
  show ?thesis
    by (rule forEach_inv[where P=P, OF _ assms(2) m]) (rule inner)
qed

lemma hyperlink_inv:
  assumes pv: "\<And>s r c v t s'. P s \<Longrightarrow> placeValue s r c v t = Done s' \<Longrightarrow> P s'"
    and "P s" and "hyperlink E lm attrs s = Done s'"
  shows "P s'"
  using assms(2,3)
  by (auto simp: hyperlink_def Let_def split: prod.splits if_splits raw.splits intro: pv)

lemma charData_inv:
  assumes pv: "\<And>s r c v t s'. P s \<Longrightarrow> placeValue s r c v t = Done s' \<Longrightarrow> P s'"
    and "P s" and "charData E v l s = Done s'"
  shows "P s'"
  using assms(2,3)
  by (auto simp: charData_def Let_def split: prod.splits if_splits CellType.splits option.splits intro: pv)

lemma step_inv_nodim:
  assumes pv: "\<And>s r c v t s'. P s \<Longrightarrow> placeValue s r c v t = Done s' \<Longrightarrow> P s'"
    and "\<not> isDimension tok" and "P s" and "step E lm tok (s, l) = Done (s', l')"
  shows "P s'"
proof (cases tok)
  case (CharData v)
  then show ?thesis using assms(3,4) by (auto split: outcome.splits intro: charData_inv[where P=P] pv)
next
  case (StartElement name attrs)
  then show ?thesis using assms(2,3,4)
    by (auto split: outcome.splits if_splits intro: mergeCell_inv[where P=P] hyperlink_inv[where P=P] pv)
next
  case (EndElement name)
  then show ?thesis using assms(3,4) by (auto split: if_splits)
next
  case OtherToken
  then show ?thesis using assms(3,4) by simp
qed

lemma step_inv:
  assumes pv: "\<And>s r c v t s'. P s \<Longrightarrow> placeValue s r c v t = Done s' \<Longrightarrow> P s'"
    and dm: "\<And>s attrs. P s \<Longrightarrow> P (dimension E attrs s)"
    and "P s" and "step E lm tok (s, l) = Done (s', l')"
  shows "P s'"
proof (cases "isDimension tok")
  case True
  then obtain attrs where "tok = StartElement ''dimension'' attrs" by (cases tok) auto
  then show ?thesis using assms(3,4) dm by auto
next
  case False
  show ?thesis
    by (rule step_inv_nodim[where P=P and tok=tok and s=s and l=l and l'=l' and E=E and lm=lm])
       (use False assms(3,4) in \<open>auto intro: pv\<close>)
qed


lemma decode_inv:
  assumes pv: "\<And>s r c v t s'. P s \<Longrightarrow> placeValue s r c v t = Done s' \<Longrightarrow> P s'"
    and dm: "\<And>s attrs. P s \<Longrightarrow> P (dimension E attrs s)"
    and "P s" and "decode E lm toks (s, l) = Done (s', l')"
  shows "P s'"
  using assms(3,4)
proof (induction toks arbitrary: s l)
  case Nil
  then show ?case by simp
next
  case (Cons tok toks)
  from Cons.prems(2) obtain s1 l1 where
    s1: "step E lm tok (s, l) = Done (s1, l1)" and d: "decode E lm toks (s1, l1) = Done (s', l')"
    by (auto split: outcome.splits)
  have "P s1"
    by (rule step_inv[where P=P and tok=tok and s=s and l=l and l'=l1 and E=E and lm=lm])
       (use Cons.prems(1) s1 in \<open>auto intro: pv dm\<close>)
  then show ?case using Cons.IH[OF _ d] by simp
qed










subsection \<open>The shape of the grid\<close>




subsection \<open>Merge regions\<close>














subsection \<open>The dimension A1\<close>




subsection \<open>Shared strings\<close>

text \<open>
  Claim C8, amended. For character data \<open>v\<close> inside a cell of the shared-string type with
  a well-formed reference, the index is \<open>ParseInt v\<close> (0 when \<open>v\<close> is not an integer, as
  the error of the parse is dropped). An index inside the table places the string found
  there as value and as display string. An index outside the table makes the read of the
  table panic: no value is placed and none is substituted, and \<open>parseSheet\<close> does not
  return an error, it does not return.
\<close>

theorem sharedString_lookup:
  assumes "currentCellType l = SharedStringCellType" "currentCell l \<noteq> []"
    and "refToIndexes E (currentCell l) = (c, r)" "0 \<le> c" "0 \<le> r"
  shows "step E lm (CharData v) (s, l) =
     (if 0 \<le> ParseInt v \<and> ParseInt v < int (length (strings E))
      then (case placeValue s r c (RString (strings E ! nat (ParseInt v)))
                   (strings E ! nat (ParseInt v)) of
              Panic p \<Rightarrow> Panic p
            | Done t \<Rightarrow> Done (t, l))
      else Panic IndexOutOfRange)"
  using assms by (auto simp: charData_def Let_def)

theorem sharedString_lookup_witness:
  "currentCellType localsShared = SharedStringCellType \<and> currentCell localsShared \<noteq> [] \<and>
   refToIndexes exampleEnv (currentCell localsShared) = (0, 0) \<and> (0::int) \<le> 0 \<and>
   step exampleEnv Map.empty (CharData ''1'') (sheetA1_empty, localsShared) =
     Done (sheetShared ''beta'', localsShared)"
proof -
  have h: "currentCellType localsShared = SharedStringCellType" "currentCell localsShared \<noteq> []"
    "refToIndexes exampleEnv (currentCell localsShared) = (0, 0)" "(0::int) \<le> 0" "(0::int) \<le> 0"
    by code_simp+
  have i: "ParseInt ''1'' = 1" by code_simp
  have p: "placeValue sheetA1_empty 0 0 (RString (strings exampleEnv ! nat 1))
             (strings exampleEnv ! nat 1) = Done (sheetShared ''beta'')"
    by code_simp
  have n: "(1::int) < int (length (strings exampleEnv))" by code_simp
  from sharedString_lookup [OF h, of Map.empty "''1''" sheetA1_empty]
  have "step exampleEnv Map.empty (CharData ''1'') (sheetA1_empty, localsShared) =
     Done (sheetShared ''beta'', localsShared)"
    unfolding i using p n by simp
  with h show ?thesis by blast
qed

text \<open>
  Claim C8 as stated fails: with two shared strings the index 7 makes \<open>parseSheet\<close>
  panic instead of returning an error, and the text \<open>x\<close>, which is no index, silently
  places the first shared string.
\<close>

theorem sharedString_counterexample:
  "parseSheet exampleEnv noRels (Opened (partShared ''7'') EOF) newSheet = Panic IndexOutOfRange \<and>
   \<not> returnsError (parseSheet exampleEnv noRels (Opened (partShared ''7'') EOF) newSheet) \<and>
   parseSheet exampleEnv noRels (Opened (partShared ''x'') EOF) newSheet
     = Done (sheetShared ''alpha'', None)"
  by code_simp

subsection \<open>Hyperlinks and malformed references\<close>





lemma charData_malformed_discarded:
  assumes "refToIndexes E (currentCell l) = (c, r)" "c < 0 \<or> r < 0"
  shows "charData E v l s = Done s"
  using assms by (auto simp: charData_def)

lemma mergeCell_malformed_start_example:
  "parseSheet exampleEnv noRels
     (Opened [StartElement ''dimension'' [(''ref'', ''A1:C3'')],
              StartElement ''mergeCell'' [(''ref'', ''#REF!:B2'')]] EOF) newSheet
     = Panic IndexOutOfRange"
  by code_simp

text \<open>
  Claim C6. The claim holds for character data inside a cell (the lemma above), but not
  for a hyperlink element: its reference is used without the test on the indexes, and a
  negative row index makes the read of \<open>s.rows[row]\<close> panic. A merge region whose first
  corner is malformed and whose second corner is not panics in \<open>placeValue\<close> the same way.
\<close>

theorem hyperlink_malformed_panics:
  assumes "refToIndexes E (getAttr attrs ''ref'') = (col, row)" "row < 0"
  shows "hyperlink E lm attrs s = Panic IndexOutOfRange"
proof -
  have "row < int (length (rows s))" using assms(2) by linarith
  then show ?thesis using assms by (simp add: hyperlink_def getAttrs_def Let_def)
qed

theorem hyperlink_malformed_panics_witness:
  "refToIndexes exampleEnv (getAttr [(''ref'', ''#REF!''), (''id'', ''rId1'')] ''ref'') = (- 1, - 1) \<and>
   (- 1 :: int) < 0 \<and>
   parseSheet exampleEnv relsExample
     (Opened [StartElement ''hyperlink'' [(''ref'', ''#REF!''), (''id'', ''rId1'')]] EOF) newSheet
     = Panic IndexOutOfRange"
proof -
  have h: "refToIndexes exampleEnv (getAttr [(''ref'', ''#REF!''), (''id'', ''rId1'')] ''ref'') = (- 1, - 1)"
    by code_simp
  have n: "(- 1 :: int) < 0" by simp
  have "hyperlink exampleEnv (loadLinkmap relsExample) [(''ref'', ''#REF!''), (''id'', ''rId1'')] newSheet
      = Panic IndexOutOfRange"
    using hyperlink_malformed_panics [OF h n] .
  then show ?thesis using h by (simp add: parseSheet_def)
qed

subsection \<open>Scan and the cursor\<close>







lemma nexts_fields: "iterRow (nexts n s) = iterRow s + int n \<and> rows (nexts n s) = rows s"
  by (induction n) (simp_all add: Next_def)







subsection \<open>The end of the stream\<close>

lemma decode_iterRow:
  assumes "decode E lm toks (s, l) = Done (s', l')"
  shows "iterRow s' = iterRow s"
proof (rule decode_inv[where P="\<lambda>t::Sheet. iterRow t = iterRow s" and s=s and E=E and lm=lm
        and toks=toks and l=l and l'=l'])
  show "iterRow s = iterRow s" by simp
  show "decode E lm toks (s, l) = Done (s', l')" by (rule assms)
next
  fix t :: Sheet and r c v x t'
  assume "iterRow t = iterRow s" "placeValue t r c v x = Done t'"
  then show "iterRow t' = iterRow s" using placeValue_fields by force
next
  fix t :: Sheet and attrs
  assume "iterRow t = iterRow s"
  then show "iterRow (dimension E attrs t) = iterRow s"
    by (simp add: dimension_def Let_def split: prod.splits)
qed

lemma parseSheet_iterRow:
  assumes "parseSheet E rels part s = Done (s', r)"
  shows "iterRow s' = iterRow s"
proof (cases part)
  case (OpenError e)
  then show ?thesis using assms by (simp add: parseSheet_def)
next
  case (Opened toks e)
  then obtain l where "decode E (loadLinkmap rels) toks (s, initLocals) = Done (s', l)"
    using assms by (auto simp: parseSheet_def split: outcome.splits)
  then show ?thesis by (rule decode_iterRow)
qed

lemma cursor_reads_rows:
  assumes "iterRow t = - 1"
  shows "(\<forall>i<length (rows t).
            snd (Next (nexts i t)) \<and>
            Strings (fst (Next (nexts i t))) =
              Done (map (\<lambda>col. if Value_IsEmpty col then [] else Sprint col) (rows t ! i))) \<and>
         \<not> snd (Next (nexts (length (rows t)) t))"
proof -
  have f: "iterRow (nexts n t) = int n - 1" "rows (nexts n t) = rows t" for n
    using nexts_fields[of n t] assms by simp_all
  have 1: "snd (Next (nexts i t)) \<and>
            Strings (fst (Next (nexts i t))) =
              Done (map (\<lambda>col. if Value_IsEmpty col then [] else Sprint col) (rows t ! i))"
    if "i < length (rows t)" for i
    using that by (simp add: Next_def Strings_def f)
  have 2: "\<not> snd (Next (nexts (length (rows t)) t))"
    by (simp add: Next_def f)
  show ?thesis using 1 2 by blast
qed

text \<open>
  Claim C9. When the sheet is loaded without a panic: \<open>parseSheet\<close> returns nil exactly
  when the worksheet part opened and its token stream ended with \<open>EOF\<close>; the error of a
  part that does not open, and the error that ends the stream when it is not \<open>EOF\<close>, is
  the error returned and the one \<open>Err\<close> gives afterwards. A stream that fails leaves the
  sheet that the tokens read before the failure built, the very sheet a stream ending
  there with \<open>EOF\<close> leaves. With the cursor before the first row, \<open>Next\<close> returns true
  once for each row of that grid, \<open>Strings\<close> then reads the row, and the next \<open>Next\<close>
  returns false.
\<close>

theorem parseSheet_stream_end:
  assumes "loadSheet E rels part s = Done t"
  shows "\<exists>s' r. parseSheet E rels part s = Done (s', r) \<and> t = s'\<lparr>err := r\<rparr> \<and> Err t = r \<and>
           (r = None \<longleftrightarrow> (\<exists>toks. part = Opened toks EOF)) \<and>
           (\<forall>e. part = OpenError e \<longrightarrow> r = Some e \<and> s' = s) \<and>
           (\<forall>toks e. part = Opened toks e \<and> e \<noteq> EOF \<longrightarrow>
              r = Some e \<and> parseSheet E rels (Opened toks EOF) s = Done (s', None)) \<and>
           rows t = rows s' \<and>
           (iterRow s = - 1 \<longrightarrow>
              (\<forall>i<length (rows t).
                 snd (Next (nexts i t)) \<and>
                 Strings (fst (Next (nexts i t))) =
                   Done (map (\<lambda>col. if Value_IsEmpty col then [] else Sprint col) (rows t ! i))) \<and>
              \<not> snd (Next (nexts (length (rows t)) t)))"
proof -
  from assms obtain s' r where p: "parseSheet E rels part s = Done (s', r)"
    and t: "t = s'\<lparr>err := r\<rparr>"
    by (auto simp: loadSheet_def split: outcome.splits)
  have e: "Err t = r" "rows t = rows s'" using t by (simp_all add: Err_def)
  have 1: "r = None \<longleftrightarrow> (\<exists>toks. part = Opened toks EOF)"
    using p by (cases part) (auto simp: parseSheet_def split: outcome.splits if_splits)
  have 2: "\<forall>e. part = OpenError e \<longrightarrow> r = Some e \<and> s' = s"
    using p by (auto simp: parseSheet_def)
  have 3: "\<forall>toks e. part = Opened toks e \<and> e \<noteq> EOF \<longrightarrow>
              r = Some e \<and> parseSheet E rels (Opened toks EOF) s = Done (s', None)"
    using p by (auto simp: parseSheet_def split: outcome.splits)
  have 4: "iterRow s = - 1 \<longrightarrow>
              (\<forall>i<length (rows t).
                 snd (Next (nexts i t)) \<and>
                 Strings (fst (Next (nexts i t))) =
                   Done (map (\<lambda>col. if Value_IsEmpty col then [] else Sprint col) (rows t ! i))) \<and>
              \<not> snd (Next (nexts (length (rows t)) t))"
  proof
    assume "iterRow s = - 1"
    then have "iterRow t = - 1" using parseSheet_iterRow[OF p] t by simp
    then show "(\<forall>i<length (rows t).
                 snd (Next (nexts i t)) \<and>
                 Strings (fst (Next (nexts i t))) =
                   Done (map (\<lambda>col. if Value_IsEmpty col then [] else Sprint col) (rows t ! i))) \<and>
              \<not> snd (Next (nexts (length (rows t)) t))"
      by (rule cursor_reads_rows)
  qed
  show ?thesis
    apply (rule exI[of _ s'])
    apply (rule exI[of _ r])
    apply (intro conjI)
    apply (rule p)
    apply (rule t)
    apply (rule e(1))
    apply (rule 1)
    apply (rule 2)
    apply (rule 3)
    apply (rule e(2))
    apply (rule 4)
    done
qed

theorem parseSheet_stream_end_witness:
  "loadSheet exampleEnv noRels
     (Opened (partB2D5_head @ partB2D5_cells) (Failure ''read error'')) newSheet
     = Done (sheetB2D5\<lparr>err := Some (Failure ''read error'')\<rparr>) \<and>
   iterRow newSheet = - 1 \<and>
   Err (sheetB2D5\<lparr>err := Some (Failure ''read error'')\<rparr>) = Some (Failure ''read error'') \<and>
   snd (Next (nexts 1 (sheetB2D5\<lparr>err := Some (Failure ''read error'')\<rparr>))) \<and>
   Strings (fst (Next (nexts 1 (sheetB2D5\<lparr>err := Some (Failure ''read error'')\<rparr>))))
     = Done ['''', ''x'', '''', '''']"
proof -
  let ?t = "sheetB2D5\<lparr>err := Some (Failure ''read error'')\<rparr>"
  let ?part = "Opened (partB2D5_head @ partB2D5_cells) (Failure ''read error'')"
  have h: "loadSheet exampleEnv noRels ?part newSheet = Done ?t"
    by code_simp
  have i: "iterRow newSheet = - 1" by code_simp
  have n: "(1::nat) < length (rows ?t)" by code_simp
  have m: "map (\<lambda>col. if Value_IsEmpty col then [] else Sprint col) (rows ?t ! 1)
      = ['''', ''x'', '''', '''']"
    by code_simp
  from parseSheet_stream_end [OF h] obtain s' r where
    a: "parseSheet exampleEnv noRels ?part newSheet = Done (s', r) \<and>
        ?t = s'\<lparr>err := r\<rparr> \<and> Err ?t = r \<and>
        (r = None \<longleftrightarrow> (\<exists>toks. ?part = Opened toks EOF)) \<and>
        (\<forall>e. ?part = OpenError e \<longrightarrow> r = Some e \<and> s' = newSheet) \<and>
        (\<forall>toks e. ?part = Opened toks e \<and> e \<noteq> EOF \<longrightarrow>
           r = Some e \<and> parseSheet exampleEnv noRels (Opened toks EOF) newSheet = Done (s', None)) \<and>
        rows ?t = rows s' \<and>
        (iterRow newSheet = - 1 \<longrightarrow>
           (\<forall>i<length (rows ?t).
              snd (Next (nexts i ?t)) \<and>
              Strings (fst (Next (nexts i ?t))) =
                Done (map (\<lambda>col. if Value_IsEmpty col then [] else Sprint col) (rows ?t ! i))) \<and>
           \<not> snd (Next (nexts (length (rows ?t)) ?t)))"
    by (elim exE) (rule that)
  have a2: "Err ?t = r" using a by (elim conjE)
  have a3: "\<forall>toks e. ?part = Opened toks e \<and> e \<noteq> EOF \<longrightarrow>
           r = Some e \<and> parseSheet exampleEnv noRels (Opened toks EOF) newSheet = Done (s', None)"
    using a by (elim conjE)
  have a4: "iterRow newSheet = - 1 \<longrightarrow>
           (\<forall>i<length (rows ?t).
              snd (Next (nexts i ?t)) \<and>
              Strings (fst (Next (nexts i ?t))) =
                Done (map (\<lambda>col. if Value_IsEmpty col then [] else Sprint col) (rows ?t ! i))) \<and>
           \<not> snd (Next (nexts (length (rows ?t)) ?t))"
    using a by (elim conjE)
  have "r = Some (Failure ''read error'')"
    using a3[rule_format, of "partB2D5_head @ partB2D5_cells" "Failure ''read error''"] by simp
  then have e: "Err ?t = Some (Failure ''read error'')" using a2 by simp
  have "snd (Next (nexts 1 ?t)) \<and>
        Strings (fst (Next (nexts 1 ?t))) =
          Done (map (\<lambda>col. if Value_IsEmpty col then [] else Sprint col) (rows ?t ! 1))"
    using a4[rule_format, OF i, THEN conjunct1, rule_format, OF n] .
  then have s: "snd (Next (nexts 1 ?t)) \<and>
        Strings (fst (Next (nexts 1 ?t))) = Done ['''', ''x'', '''', '''']"
    unfolding m .
  show ?thesis
    apply (intro conjI)
    apply (rule h)
    apply (rule i)
    apply (rule e)
    apply (rule s[THEN conjunct1])
    apply (rule s[THEN conjunct2])
    done
qed

end
